theory Spec2Isabelle
  imports Complex_Main "HOL-Library.AList"
begin

section \<open>Python built-ins used by the scraper\<close>

text \<open>
  The exceptions of the Python runtime that the modelled code can meet. A function of the
  source that can raise returns \<open>py_error + 'a\<close>, with \<open>Inl\<close> for the exception.
\<close>

datatype py_error = ValueError | IndexError | TypeError | KeyError

subsection \<open>Strings\<close>

text \<open>
  Python strings are modelled as \<open>string\<close>; the text handled here (header values, product
  names, prices) is taken to be ASCII. \<open>is_space\<close> is the ASCII part of \<open>str.isspace\<close>.
\<close>

definition is_space :: "char \<Rightarrow> bool" where
  "is_space c = (of_char c \<in> set [9, 10, 11, 12, 13, 28, 29, 30, 31, 32 :: nat])"

definition is_digit :: "char \<Rightarrow> bool" where
  "is_digit c = (48 \<le> (of_char c :: nat) \<and> (of_char c :: nat) \<le> 57)"

definition py_strip :: "string \<Rightarrow> string" where
  "py_strip s = rev (dropWhile is_space (rev (dropWhile is_space s)))"

text \<open>\<open>s.split()\<close>: the maximal runs of characters that are not white space.\<close>

fun split_ws :: "string \<Rightarrow> string \<Rightarrow> string list" where
  "split_ws cur [] = (if cur = [] then [] else [cur])"
| "split_ws cur (c # cs) =
     (if is_space c then (if cur = [] then split_ws [] cs else cur # split_ws [] cs)
      else split_ws (cur @ [c]) cs)"

definition py_split :: "string \<Rightarrow> string list" where
  "py_split s = split_ws [] s"

text \<open>\<open>s.split(sep)\<close> for a non-empty separator: never an empty list.\<close>

function split_sep :: "string \<Rightarrow> string \<Rightarrow> string \<Rightarrow> string list" where
  "split_sep sep cur s =
     (if s = [] then [cur]
      else if sep \<noteq> [] \<and> take (length sep) s = sep
        then cur # split_sep sep [] (drop (length sep) s)
      else split_sep sep (cur @ [hd s]) (tl s))"
  by pat_completeness auto
termination
  by (relation "measure (\<lambda>(sep, cur, s). length s)") (auto simp: neq_Nil_conv)

definition py_split_on :: "string \<Rightarrow> string \<Rightarrow> string list" where
  "py_split_on sep s = split_sep sep [] s"

text \<open>\<open>sub in s\<close> for strings, and \<open>s.replace(old, new)\<close> for a non-empty \<open>old\<close>.\<close>

definition py_contains :: "string \<Rightarrow> string \<Rightarrow> bool" where
  "py_contains sub s = (\<exists>i \<in> set [0 ..< Suc (length s)]. take (length sub) (drop i s) = sub)"



subsection \<open>Numbers\<close>

definition nat_of_digits :: "string \<Rightarrow> nat" where
  "nat_of_digits s = foldl (\<lambda>a c. 10 * a + (of_char c - 48)) 0 s"

text \<open>
  The digit part of an integer literal as \<open>int(str)\<close> reads it: digits, with single
  underscores allowed between two digits.
\<close>

fun int_digits :: "string \<Rightarrow> bool" where
  "int_digits [] = False"
| "int_digits [c] = is_digit c"
| "int_digits (c # d # r) =
     (is_digit c \<and> (if d = CHR ''_'' then int_digits r else int_digits (d # r)))"

text \<open>
  \<open>int(s)\<close> for a string: surrounding white space and one sign are allowed; anything else
  raises \<open>ValueError\<close>.
\<close>

definition py_int :: "string \<Rightarrow> py_error + int" where
  "py_int s =
     (let t = py_strip s;
          neg = (t \<noteq> [] \<and> hd t = CHR ''-'');
          ds = (if t \<noteq> [] \<and> (hd t = CHR ''-'' \<or> hd t = CHR ''+'') then tl t else t)
      in if int_digits ds
         then Inr ((if neg then -1 else 1) * int (nat_of_digits (filter is_digit ds)))
         else Inl ValueError)"

section \<open>The request layer: \<open>src/utils/request_utils.py\<close>\<close>

definition USER_AGENTS :: "string list" where
  "USER_AGENTS =
    [''Mozilla/5.0 (Windows NT 10.0; Win64; x64) AppleWebKit/537.36 (KHTML, like Gecko) Chrome/91.0.4472.124 Safari/537.36'',
     ''Mozilla/5.0 (Windows NT 10.0; Win64; x64) AppleWebKit/537.36 (KHTML, like Gecko) Chrome/92.0.4515.107 Safari/537.36'',
     ''Mozilla/5.0 (Macintosh; Intel Mac OS X 10_15_7) AppleWebKit/605.1.15 (KHTML, like Gecko) Version/14.1.2 Safari/605.1.15'',
     ''Mozilla/5.0 (Windows NT 10.0; Win64; x64; rv:90.0) Gecko/20100101 Firefox/90.0'',
     ''Mozilla/5.0 (Macintosh; Intel Mac OS X 10_15_7) AppleWebKit/537.36 (KHTML, like Gecko) Chrome/91.0.4472.114 Safari/537.36'',
     ''Mozilla/5.0 (X11; Linux x86_64) AppleWebKit/537.36 (KHTML, like Gecko) Chrome/92.0.4515.107 Safari/537.36'',
     ''Mozilla/5.0 (Windows NT 10.0; Win64; x64) AppleWebKit/537.36 (KHTML, like Gecko) Chrome/91.0.4472.124 Safari/537.36 Edg/91.0.864.59'',
     ''Mozilla/5.0 (iPhone; CPU iPhone OS 14_6 like Mac OS X) AppleWebKit/605.1.15 (KHTML, like Gecko) Version/14.1.1 Mobile/15E148 Safari/604.1'',
     ''Mozilla/5.0 (iPad; CPU OS 14_6 like Mac OS X) AppleWebKit/605.1.15 (KHTML, like Gecko) Version/14.0 Mobile/15E148 Safari/604.1'',
     ''Mozilla/5.0 (Windows NT 10.0; Win64; x64) AppleWebKit/537.36 (KHTML, like Gecko) Chrome/92.0.4515.159 Safari/537.36 OPR/78.0.4093.184'']"

text \<open>The contents of the module-level list \<open>REFERRERS\<close> when the module is imported.\<close>

definition REFERRERS_at_import :: "string list" where
  "REFERRERS_at_import =
    [''https://www.google.com/'',
     ''https://www.bing.com/'',
     ''https://www.facebook.com/'',
     ''https://www.instagram.com/'',
     ''https://www.pinterest.com/'',
     ''https://twitter.com/'',
     ''https://pk.sapphireonline.pk/'',
     ''https://pk.sapphireonline.pk/sale/'',
     ''https://pk.sapphireonline.pk/collections/'',
     ''https://pk.sapphireonline.pk/new-arrivals/'']"

text \<open>
  HTTP headers, as a dictionary in insertion order. Header names are case-insensitive in
  httpx and are written in lower case here. \<open>AList.update\<close> is the assignment
  \<open>h[k] = v\<close>, \<open>AList.merge h h'\<close> is \<open>h.update(h')\<close>, and \<open>map_of h k\<close> is the lookup.
\<close>

type_synonym headers = "(string \<times> string) list"

text \<open>
  The process-wide state the request layer reads and writes: the module-level list
  \<open>REFERRERS\<close> (one list object, shared by every \<open>RequestManager\<close>), the number of
  \<open>random.choice\<close> calls made so far, the arguments of \<open>time.sleep\<close> in call order, and
  the headers of every GET that was sent, in order. The last three are observations of
  the run; the code does not read them.
\<close>

record world =
  REFERRERS :: "string list"
  tick :: nat
  slept :: "int list"
  sent :: "headers list"

text \<open>
  A \<open>RequestManager\<close>. \<open>session_headers\<close> is \<open>self.session.headers\<close>.
\<close>

record request_manager =
  rm_base_url :: string
  rm_retry_count :: int
  rm_retry_delay :: int
  session_headers :: headers

text \<open>The default headers of a new \<open>httpx.Client()\<close>.\<close>

definition httpx_default_headers :: headers where
  "httpx_default_headers =
     [(''accept'', ''*/*''), (''accept-encoding'', ''gzip, deflate''),
      (''connection'', ''keep-alive''), (''user-agent'', ''python-httpx'')]"

text \<open>
  \<open>random.choice(xs)\<close>: the random source is an oracle \<open>rand\<close>, read at the current tick;
  an empty sequence raises \<open>IndexError\<close>.
\<close>

definition random_choice :: "(nat \<Rightarrow> nat) \<Rightarrow> 'a list \<Rightarrow> world \<Rightarrow> py_error + ('a \<times> world)" where
  "random_choice rand xs w =
     (if xs = [] then Inl IndexError
      else Inr (xs ! (rand (tick w) mod length xs), w\<lparr>tick := Suc (tick w)\<rparr>))"

definition rotate_identity ::
  "(nat \<Rightarrow> nat) \<Rightarrow> request_manager \<Rightarrow> world \<Rightarrow> py_error + (request_manager \<times> world)" where
  "rotate_identity rand rm w =
     (case random_choice rand USER_AGENTS w of
        Inl e \<Rightarrow> Inl e
      | Inr (user_agent, w1) \<Rightarrow>
          (case random_choice rand (REFERRERS w1) w1 of
             Inl e \<Rightarrow> Inl e
           | Inr (referrer, w2) \<Rightarrow>
               Inr (rm\<lparr>session_headers :=
                        AList.merge (session_headers rm)
                          [(''user-agent'', user_agent), (''referer'', referrer)]\<rparr>,
                    w2)))"

definition RequestManager_init ::
  "(nat \<Rightarrow> nat) \<Rightarrow> string \<Rightarrow> int \<Rightarrow> int \<Rightarrow> world \<Rightarrow> py_error + (request_manager \<times> world)" where
  "RequestManager_init rand base retry_count retry_delay w =
     rotate_identity rand
       \<lparr>rm_base_url = base, rm_retry_count = retry_count, rm_retry_delay = retry_delay,
        session_headers = httpx_default_headers\<rparr> w"

text \<open>
  What one \<open>self.session.get\<close> meets: a response (of any status; only the header the code
  reads is kept), or one of the transport exceptions that \<open>make_request\<close> catches.
\<close>

record response =
  status_code :: int
  retry_after :: "string option"

datatype outcome = Response response | ConnectError | TimeoutException | RequestError

text \<open>\<open>response.raise_for_status()\<close> of httpx returns for a 2xx status and raises otherwise.\<close>

definition is_success :: "response \<Rightarrow> bool" where
  "is_success r = (200 \<le> status_code r \<and> status_code r \<le> 299)"

text \<open>\<open>time.sleep(t)\<close> raises \<open>ValueError\<close> for a negative \<open>t\<close>.\<close>

definition time_sleep :: "int \<Rightarrow> world \<Rightarrow> py_error + world" where
  "time_sleep t w = (if t < 0 then Inl ValueError else Inr (w\<lparr>slept := slept w @ [t]\<rparr>))"

text \<open>\<open>int(response.headers.get('Retry-After', current_delay))\<close>.\<close>

definition wait_time :: "int \<Rightarrow> response \<Rightarrow> py_error + int" where
  "wait_time current_delay r =
     (case retry_after r of None \<Rightarrow> Inr current_delay | Some h \<Rightarrow> py_int h)"

text \<open>
  The \<open>for attempt in range(self.retry_count + 1)\<close> loop of \<open>make_request\<close>: \<open>n\<close> attempts
  are left, \<open>net attempt\<close> is what the GET of this attempt meets. The request is sent with
  \<open>headers=merged_headers\<close>: httpx merges them over the session's headers, the request's
  own headers winning. An exception raised inside an \<open>except\<close> block (by \<open>int\<close> or
  \<open>time.sleep\<close>) or by \<open>rotate_identity\<close> is caught by no handler and leaves the function.
\<close>

fun request_loop ::
  "(nat \<Rightarrow> nat) \<Rightarrow> (nat \<Rightarrow> outcome) \<Rightarrow> headers \<Rightarrow> nat \<Rightarrow> nat \<Rightarrow> int \<Rightarrow>
   response option \<Rightarrow> request_manager \<Rightarrow> world \<Rightarrow>
   (request_manager \<times> world) \<times> (py_error + (response option \<times> bool))" where
  "request_loop rand net merged_headers 0 attempt current_delay resp rm w =
     ((rm, w), Inr (resp, False))"
| "request_loop rand net merged_headers (Suc n) attempt current_delay resp rm w =
     (case (if 0 < attempt then rotate_identity rand rm w else Inr (rm, w)) of
        Inl e \<Rightarrow> ((rm, w), Inl e)
      | Inr (rm1, w1) \<Rightarrow>
          (let w2 = w1\<lparr>sent := sent w1 @ [AList.merge (session_headers rm1) merged_headers]\<rparr> in
           case net attempt of
             Response r \<Rightarrow>
               if is_success r then ((rm1, w2), Inr (Some r, True))
               else
                 (case (if status_code r = 429 then wait_time current_delay r
                        else Inr current_delay) of
                    Inl e \<Rightarrow> ((rm1, w2), Inl e)
                  | Inr t \<Rightarrow>
                      (case time_sleep t w2 of
                         Inl e \<Rightarrow> ((rm1, w2), Inl e)
                       | Inr w3 \<Rightarrow>
                           request_loop rand net merged_headers n (Suc attempt)
                             (current_delay * 2) (Some r) rm1 w3))
           | _ \<Rightarrow>
               (case time_sleep current_delay w2 of
                  Inl e \<Rightarrow> ((rm1, w2), Inl e)
                | Inr w3 \<Rightarrow>
                    request_loop rand net merged_headers n (Suc attempt)
                      (current_delay * 2) resp rm1 w3)))"

text \<open>
  \<open>make_request\<close>. \<open>extra\<close> are the caller's extra headers (the empty list for \<open>None\<close>).
  The result is the final state and either the exception that left the function or the
  pair \<open>(response, success)\<close>; a run that never got a response returns the made-up
  response with status 0.
\<close>

definition make_request ::
  "(nat \<Rightarrow> nat) \<Rightarrow> (nat \<Rightarrow> outcome) \<Rightarrow> request_manager \<Rightarrow> headers \<Rightarrow> world \<Rightarrow>
   (request_manager \<times> world) \<times> (py_error + (response \<times> bool))" where
  "make_request rand net rm extra w =
     (let merged_headers = AList.merge (session_headers rm) extra in
      case request_loop rand net merged_headers (nat (rm_retry_count rm + 1)) 0
             (rm_retry_delay rm) None rm w of
        (st, Inl e) \<Rightarrow> (st, Inl e)
      | (st, Inr (resp, success)) \<Rightarrow>
          (st, Inr (case resp of
                      None \<Rightarrow> \<lparr>status_code = 0, retry_after = None\<rparr>
                    | Some r \<Rightarrow> r,
                    success)))"

text \<open>The state and the manager a call of \<open>make_request\<close> leaves behind.\<close>

definition world_after ::
  "(nat \<Rightarrow> nat) \<Rightarrow> (nat \<Rightarrow> outcome) \<Rightarrow> request_manager \<Rightarrow> headers \<Rightarrow> world \<Rightarrow> world" where
  "world_after rand net rm extra w = snd (fst (make_request rand net rm extra w))"

definition manager_after ::
  "(nat \<Rightarrow> nat) \<Rightarrow> (nat \<Rightarrow> outcome) \<Rightarrow> request_manager \<Rightarrow> headers \<Rightarrow> world \<Rightarrow> request_manager" where
  "manager_after rand net rm extra w = fst (fst (make_request rand net rm extra w))"

subsection \<open>Concrete runs\<close>

text \<open>
  The state right after the module is imported; a random source whose every draw is \<open>i\<close>;
  the manager that \<open>RequestManager(base_url, 3, 5)\<close> builds in that state when every draw
  is 0; and four behaviours of the network.
\<close>

definition world_at_import :: world where
  "world_at_import = \<lparr>REFERRERS = REFERRERS_at_import, tick = 0, slept = [], sent = []\<rparr>"

definition rand_const :: "nat \<Rightarrow> nat \<Rightarrow> nat" where
  "rand_const i t = i"

definition example_manager :: request_manager where
  "example_manager =
     \<lparr>rm_base_url = ''https://pk.sapphireonline.pk'', rm_retry_count = 3, rm_retry_delay = 5,
      session_headers =
        [(''accept'', ''*/*''), (''accept-encoding'', ''gzip, deflate''),
         (''connection'', ''keep-alive''), (''user-agent'', USER_AGENTS ! 0),
         (''referer'', ''https://www.google.com/'')]\<rparr>"

definition net_retry_after_date :: "nat \<Rightarrow> outcome" where
  "net_retry_after_date attempt =
     Response \<lparr>status_code = 429, retry_after = Some ''Wed, 21 Oct 2015 07:28:00 GMT''\<rparr>"


definition net_two_failures :: "nat \<Rightarrow> outcome" where
  "net_two_failures attempt =
     (if attempt = 0 then ConnectError
      else if attempt = 1 then Response \<lparr>status_code = 503, retry_after = None\<rparr>
      else Response \<lparr>status_code = 200, retry_after = None\<rparr>)"

section \<open>Pagination of one category: \<open>_scrape_category\<close>\<close>

text \<open>
  What the \<open>try\<close> block of one loop pass meets for the page it requests: an exception
  (out of \<open>make_request\<close>, the parser or the extractor), a request that failed after its
  retries (\<open>success = False\<close>), or a parsed page: whether the \<open>.no-results\<close> marker is
  present, and the list \<open>_extract_products\<close> returns for it. The courtesy sleep between
  pages is left out (its argument is not negative unless \<open>sleep_between_requests\<close> is).
\<close>

datatype 'p page_result = Raised | Failed | Page bool "'p list"

text \<open>
  The loop variables, and \<open>requested\<close>: the \<open>(start, page)\<close> of every request issued so
  far, in order (an observation of the run).
\<close>

record 'p cat_state =
  start :: int
  page :: nat
  category_products :: "'p list"
  requested :: "(int \<times> nat) list"

datatype 'p step = Return "'p list" | Continue "'p cat_state"

text \<open>The slice \<open>xs[:n]\<close>.\<close>

definition py_prefix :: "int \<Rightarrow> 'a list \<Rightarrow> 'a list" where
  "py_prefix n xs = (if 0 \<le> n then take (nat n) xs else take (length xs - nat (- n)) xs)"

text \<open>The test at the head of the loop: \<open>product_limit > 0 and len(category_products) >= product_limit\<close>.\<close>

definition limit_reached :: "int \<Rightarrow> 'p list \<Rightarrow> bool" where
  "limit_reached product_limit cp = (0 < product_limit \<and> product_limit \<le> int (length cp))"

text \<open>The \<open>try\<close> block of one pass, after the request has been issued.\<close>

definition handle_page :: "int \<Rightarrow> int \<Rightarrow> 'p cat_state \<Rightarrow> 'p page_result \<Rightarrow> 'p step" where
  "handle_page page_size product_limit st res =
     (case res of
        Raised \<Rightarrow> Return (category_products st)
      | Failed \<Rightarrow> Return (category_products st)
      | Page no_results products \<Rightarrow>
          if no_results then Return (category_products st)
          else if products = [] then Return (category_products st)
          else if 0 < product_limit \<and>
                  product_limit - int (length (category_products st)) < int (length products)
            then Return (category_products st @
                   py_prefix (product_limit - int (length (category_products st))) products)
          else if int (length products) < page_size
            then Return (category_products st @ products)
          else Continue (st\<lparr>start := start st + page_size, page := page st + 1,
                            category_products := category_products st @ products\<rparr>))"

text \<open>
  The \<open>while has_more_products\<close> loop. It need not end (a site can serve full pages for
  ever when there is no limit), so it runs on fuel: one unit per pass, \<open>None\<close> when the
  fuel is used up before the loop returns. \<open>site p\<close> is what the request for page number
  \<open>p\<close> meets. The result is the list of requests issued, and what the loop returned.
\<close>

fun scrape_category_loop ::
  "nat \<Rightarrow> int \<Rightarrow> (nat \<Rightarrow> 'p page_result) \<Rightarrow> int \<Rightarrow> 'p cat_state \<Rightarrow>
   (int \<times> nat) list \<times> 'p list option" where
  "scrape_category_loop 0 page_size site product_limit st = (requested st, None)"
| "scrape_category_loop (Suc fuel) page_size site product_limit st =
     (if limit_reached product_limit (category_products st)
      then (requested st, Some (py_prefix product_limit (category_products st)))
      else
        (let st1 = st\<lparr>requested := requested st @ [(start st, page st)]\<rparr> in
         case handle_page page_size product_limit st1 (site (page st)) of
           Return r \<Rightarrow> (requested st1, Some r)
         | Continue st2 \<Rightarrow> scrape_category_loop fuel page_size site product_limit st2))"

text \<open>\<open>_scrape_category\<close>: the requests it issued, and the list it returns.\<close>

definition scrape_category ::
  "nat \<Rightarrow> int \<Rightarrow> (nat \<Rightarrow> 'p page_result) \<Rightarrow> int \<Rightarrow> (int \<times> nat) list \<times> 'p list option" where
  "scrape_category fuel page_size site product_limit =
     scrape_category_loop fuel page_size site product_limit
       \<lparr>start = 0, page = 1, category_products = [], requested = []\<rparr>"

section \<open>The scrapers: construction\<close>

text \<open>
  The configuration of a brand, with the defaults of \<open>config.get\<close> already applied.
  \<open>categories\<close> is the dictionary of category names and ids, in insertion order.
\<close>

record config =
  base_url :: string
  search_api_url :: string
  categories :: "(string \<times> string) list"
  page_size :: int
  retry_count :: int
  retry_delay :: int
  product_limit :: int
  max_workers :: int

record scraper =
  conf :: config
  request_manager :: request_manager

definition SapphireScraper_init ::
  "(nat \<Rightarrow> nat) \<Rightarrow> config \<Rightarrow> world \<Rightarrow> py_error + (scraper \<times> world)" where
  "SapphireScraper_init rand cfg w =
     (case RequestManager_init rand (base_url cfg) (retry_count cfg) (retry_delay cfg) w of
        Inl e \<Rightarrow> Inl e
      | Inr (rm, w1) \<Rightarrow> Inr (\<lparr>conf = cfg, request_manager = rm\<rparr>, w1))"

definition khaadi_specific_referrers :: "string list" where
  "khaadi_specific_referrers =
    [''https://pk.khaadi.com/'',
     ''https://pk.khaadi.com/new-in/'',
     ''https://pk.khaadi.com/sale/'',
     ''https://pk.khaadi.com/fabrics/'',
     ''https://pk.khaadi.com/ready-to-wear/'',
     ''https://pk.khaadi.com/collections/'',
     ''https://www.google.com/search?q=khaadi+pakistan'',
     ''https://www.facebook.com/khaadi/'',
     ''https://www.instagram.com/khaadi/'']"

text \<open>
  \<open>_update_request_manager_referrers\<close>. A \<open>RequestManager\<close> has no attribute \<open>REFERRERS\<close>
  (neither the class nor \<open>__init__\<close> sets one), so the \<open>hasattr\<close> test fails and the
  \<open>else\<close> branch runs for every manager: it imports the module-level list and extends
  that one list object in place.
\<close>

definition update_request_manager_referrers :: "string list \<Rightarrow> world \<Rightarrow> world" where
  "update_request_manager_referrers additional_referrers w =
     w\<lparr>REFERRERS := REFERRERS w @ additional_referrers\<rparr>"

definition KhaadiScraper_init ::
  "(nat \<Rightarrow> nat) \<Rightarrow> config \<Rightarrow> world \<Rightarrow> py_error + (scraper \<times> world)" where
  "KhaadiScraper_init rand cfg w =
     (case RequestManager_init rand (base_url cfg) (retry_count cfg) (retry_delay cfg) w of
        Inl e \<Rightarrow> Inl e
      | Inr (rm, w1) \<Rightarrow>
          (let w2 = update_request_manager_referrers khaadi_specific_referrers w1 in
           case rotate_identity rand rm w2 of
             Inl e \<Rightarrow> Inl e
           | Inr (rm1, w3) \<Rightarrow> Inr (\<lparr>conf = cfg, request_manager = rm1\<rparr>, w3)))"

text \<open>A configuration with three categories, used in the concrete runs below.\<close>

definition example_config :: config where
  "example_config =
     \<lparr>base_url = ''https://pk.khaadi.com'', search_api_url = ''https://pk.khaadi.com/search'',
      categories = [(''Fabrics'', ''fabrics''), (''Ready to Wear'', ''ready-to-wear''), (''New In'', ''new-in'')],
      page_size = 12, retry_count = 3, retry_delay = 5, product_limit = 10, max_workers = 2\<rparr>"

section \<open>Orchestration: \<open>SapphireScraper.scrape\<close>\<close>

text \<open>How a call ends: it returns, it raises, or a category loop is still running when the fuel is used up.\<close>

datatype 'a run = Returns 'a | Raises py_error | OutOfFuel

text \<open>\<open>_scrape_sequential\<close>: \<open>site category_id p\<close> is what the request for page \<open>p\<close> of that category meets.\<close>

fun scrape_sequential_loop ::
  "nat \<Rightarrow> config \<Rightarrow> (string \<Rightarrow> nat \<Rightarrow> 'p page_result) \<Rightarrow> (string \<times> string) list \<Rightarrow> 'p list \<Rightarrow>
   'p list run" where
  "scrape_sequential_loop fuel cfg site [] all_products = Returns all_products"
| "scrape_sequential_loop fuel cfg site ((category_name, category_id) # rest) all_products =
     (case snd (scrape_category fuel (page_size cfg) (site category_id) (product_limit cfg)) of
        None \<Rightarrow> OutOfFuel
      | Some cat_products \<Rightarrow>
          (let all_products1 = all_products @ cat_products in
           if 0 < product_limit cfg \<and> product_limit cfg \<le> int (length all_products1)
           then Returns (py_prefix (product_limit cfg) all_products1)
           else scrape_sequential_loop fuel cfg site rest all_products1))"

text \<open>
  \<open>scrape\<close>. With more than one category a \<open>ThreadPoolExecutor\<close> is created (it raises
  \<open>ValueError\<close> for \<open>max_workers <= 0\<close>) and one task per category is submitted with its
  share of the limit. \<open>completion\<close> is the order in which \<open>as_completed\<close> yields the
  futures, as indices into the list of submitted tasks. \<open>_scrape_category\<close> catches every
  exception of its loop body, so no task fails.
\<close>

definition scrape ::
  "nat \<Rightarrow> nat list \<Rightarrow> config \<Rightarrow> (string \<Rightarrow> nat \<Rightarrow> 'p page_result) \<Rightarrow> 'p list run" where
  "scrape fuel completion cfg site =
     (let n = int (length (categories cfg)) in
      if n \<le> 1 then scrape_sequential_loop fuel cfg site (categories cfg) []
      else if min (max_workers cfg) n \<le> 0 then Raises ValueError
      else
        (let share = (if 0 < product_limit cfg then product_limit cfg div n else 0);
             futures = map (\<lambda>(category_name, category_id).
                         snd (scrape_category fuel (page_size cfg) (site category_id) share))
                       (categories cfg)
         in case those futures of
              None \<Rightarrow> OutOfFuel
            | Some results \<Rightarrow>
                (let all_products = concat (map (\<lambda>i. results ! i) completion) in
                 Returns (if 0 < product_limit cfg \<and> product_limit cfg < int (length all_products)
                          then py_prefix (product_limit cfg) all_products
                          else all_products))))"

subsection \<open>Concrete sites\<close>

text \<open>
  A category with two pages of twelve products and a third page of five; and a site
  whose every category serves one page of five products.
\<close>

definition site_12_12_5 :: "nat \<Rightarrow> nat page_result" where
  "site_12_12_5 p = (if p \<le> 2 then Page False [1 ..< 13] else Page False [1 ..< 6])"

definition site_five_each :: "string \<Rightarrow> nat \<Rightarrow> nat page_result" where
  "site_five_each category_id p = Page False [1, 2, 3, 4, 5]"

section \<open>Extraction: product type and prices\<close>

text \<open>
  \<open>xs[i]\<close> for an index that is in range, negative indices counting from the end. Every
  use below stands under the length test that the source makes before indexing.
\<close>

definition py_nth :: "'a list \<Rightarrow> int \<Rightarrow> 'a" where
  "py_nth xs i = xs ! nat (if i < 0 then int (length xs) + i else i)"

definition fabric_styles :: "string list" where
  "fabric_styles = [''Printed'', ''Embroidered'', ''Dyed'', ''Digital'', ''Embellished'']"

definition piece_types :: "string list" where
  "piece_types = [''3 Piece'', ''2 Piece'']"

text \<open>
  The value of \<open>product_type\<close> after lines 244-304 of the Sapphire extractor (the
  assignments to \<open>fabric_type\<close> and \<open>fabric_style\<close> are left out where \<open>product_type\<close>
  does not depend on them). \<open>name\<close> is the stripped text of the name element.
\<close>

definition sapphire_product_type :: "string \<Rightarrow> string" where
  "sapphire_product_type name =
     (let words = py_split name in
      if py_contains ''-'' name then
        (let parts = map py_strip (py_split_on ''-'' name);
             product_type = (if py_nth parts 0 \<in> set piece_types then py_nth parts 0 else '''')
         in if 1 < length parts then
              (let second_part_words = py_split (py_nth parts 1) in
               if second_part_words \<noteq> [] \<and> py_nth second_part_words 0 \<in> set fabric_styles
                  \<and> 2 < length second_part_words \<and> product_type = ''''
               then py_nth second_part_words (-1)
               else product_type)
            else product_type)
      else if 2 \<le> length words
              \<and> py_nth words (-2) @ '' '' @ py_nth words (-1) \<in> set piece_types
        then py_nth words (-2) @ '' '' @ py_nth words (-1)
      else if words \<noteq> [] then py_nth words (-1)
      else '''')"

text \<open>The value of \<open>product_type\<close> after lines 329-350 of the Khaadi extractor.\<close>

definition khaadi_product_type :: "string \<Rightarrow> string" where
  "khaadi_product_type name =
     (let words = py_split name in
      if 2 \<le> length words
         \<and> py_nth words (-2) @ '' '' @ py_nth words (-1) \<in> set piece_types
        then py_nth words (-2) @ '' '' @ py_nth words (-1)
      else if words \<noteq> [] then py_nth words (-1)
      else '''')"











section \<open>Detail enrichment: \<open>KhaadiScraper.enhance_products_with_details\<close>\<close>

text \<open>
  The values a product dictionary holds (what the extractor writes and what JSON can
  carry; numbers as rationals), and dictionaries with string keys in insertion order:
  \<open>map_of d k\<close> is the lookup, \<open>AList.update\<close> the assignment \<open>d[k] = v\<close>.
\<close>

datatype pyval =
    PNone
  | PBool bool
  | PNum rat
  | PStr string
  | PList "pyval list"
  | PDict "(string \<times> pyval) list"

type_synonym pydict = "(string \<times> pyval) list"

fun truthy :: "pyval \<Rightarrow> bool" where
  "truthy PNone = False"
| "truthy (PBool b) = b"
| "truthy (PNum n) = (n \<noteq> 0)"
| "truthy (PStr s) = (s \<noteq> [])"
| "truthy (PList l) = (l \<noteq> [])"
| "truthy (PDict d) = (d \<noteq> [])"

fun hashable :: "pyval \<Rightarrow> bool" where
  "hashable (PList l) = False"
| "hashable (PDict d) = False"
| "hashable v = True"

text \<open>\<open>d.get(k, default)\<close>.\<close>

definition dict_get :: "pydict \<Rightarrow> string \<Rightarrow> pyval \<Rightarrow> pyval" where
  "dict_get d k dflt = (case map_of d k of Some v \<Rightarrow> v | None \<Rightarrow> dflt)"

text \<open>\<open>sub in v\<close> for a string \<open>sub\<close>: numbers, booleans and \<open>None\<close> are not containers.\<close>

fun contains_text :: "string \<Rightarrow> pyval \<Rightarrow> py_error + bool" where
  "contains_text sub (PStr s) = Inr (py_contains sub s)"
| "contains_text sub (PList l) = Inr (PStr sub \<in> set l)"
| "contains_text sub (PDict d) = Inr (sub \<in> fst ` set d)"
| "contains_text sub v = Inl TypeError"

text \<open>\<open>product.get('colors', [])[0] if product.get('colors') else ''\<close> (line 823).\<close>

definition first_color :: "pydict \<Rightarrow> py_error + pyval" where
  "first_color product =
     (let colors = dict_get product ''colors'' (PList []) in
      if truthy colors then
        (case colors of
           PList l \<Rightarrow> Inr (hd l)
         | PStr s \<Rightarrow> Inr (PStr [hd s])
         | PDict d \<Rightarrow> Inl KeyError
         | _ \<Rightarrow> Inl TypeError)
      else Inr (PStr ''''))"

record detail_request =
  req_id :: pyval
  req_color :: pyval
  req_size :: "string option"

text \<open>
  One pass of the first loop (lines 820-847): the request built for a product, or
  \<open>None\<close> when the product is skipped (no SKU or no colour) or an exception is caught.
\<close>

definition product_request :: "pydict \<Rightarrow> detail_request option" where
  "product_request product =
     (let sku = dict_get product ''sku'' (PStr '''') in
      case first_color product of
        Inl e \<Rightarrow> None
      | Inr color \<Rightarrow>
          if truthy sku \<and> truthy color then
            (let product_type = dict_get product ''product_type'' (PStr '''') in
             case contains_text ''3 Piece'' product_type of
               Inl e \<Rightarrow> None
             | Inr True \<Rightarrow> Some \<lparr>req_id = sku, req_color = color, req_size = Some ''3PC''\<rparr>
             | Inr False \<Rightarrow>
                 (case contains_text ''2 Piece'' product_type of
                    Inl e \<Rightarrow> None
                  | Inr True \<Rightarrow> Some \<lparr>req_id = sku, req_color = color, req_size = Some ''2PC''\<rparr>
                  | Inr False \<Rightarrow> Some \<lparr>req_id = sku, req_color = color, req_size = None\<rparr>))
          else None)"

definition product_requests :: "pydict list \<Rightarrow> detail_request list" where
  "product_requests products = List.map_filter product_request products"

text \<open>
  \<open>_get_product_details_batch\<close>. The pool is created first, with
  \<open>min(max_workers, len(product_ids))\<close> workers; \<open>ThreadPoolExecutor\<close> raises \<open>ValueError\<close>
  when that is not positive, and the \<open>with\<close> statement stands in no \<open>try\<close>. One task is
  submitted per request that has an id and a colour; \<open>fetch i\<close> is the dictionary the
  \<open>i\<close>-th submitted task returns (\<open>_get_product_details_single\<close> catches every exception
  and returns \<open>{}\<close> then), and \<open>completion\<close> lists the indices of the submitted tasks
  in the order in which they complete.
  The results are stored under the request's id, a later task overwriting an earlier
  one with the same id; storing under an id that is not hashable raises \<open>TypeError\<close>,
  also from the handler that would store \<open>{}\<close> instead.
\<close>

definition get_product_details_batch ::
  "(nat \<Rightarrow> pydict) \<Rightarrow> nat list \<Rightarrow> detail_request list \<Rightarrow> int \<Rightarrow>
   py_error + (pyval \<times> pydict) list" where
  "get_product_details_batch fetch completion product_ids workers =
     (if min workers (int (length product_ids)) \<le> 0 then Inl ValueError
      else
        (let submitted = filter (\<lambda>r. truthy (req_id r) \<and> truthy (req_color r)) product_ids in
         if list_all (\<lambda>i. hashable (req_id (submitted ! i))) completion
         then Inr (fold (\<lambda>i results. AList.update (req_id (submitted ! i)) (fetch i) results)
                     completion [])
         else Inl TypeError))"

text \<open>
  Lines 952-957: the category the product name stands for, if any. The \<open>in\<close> tests
  raise \<open>TypeError\<close> on a name that is not a container.
\<close>

definition category_of_name :: "pyval \<Rightarrow> py_error + string option" where
  "category_of_name product_name =
     (if truthy product_name then
        (case contains_text ''Fabrics'' product_name of
           Inl e \<Rightarrow> Inl e
         | Inr True \<Rightarrow> Inr (Some ''Unstitched'')
         | Inr False \<Rightarrow>
             (case contains_text ''Ready'' product_name of
                Inl e \<Rightarrow> Inl e
              | Inr True \<Rightarrow> Inr (Some ''Ready to Wear'')
              | Inr False \<Rightarrow>
                  (case contains_text ''RTW'' product_name of
                     Inl e \<Rightarrow> Inl e
                   | Inr True \<Rightarrow> Inr (Some ''Ready to Wear'')
                   | Inr False \<Rightarrow> Inr None)))
      else Inr None)"

text \<open>
  Lines 948-961, after \<open>product.update\<close>: the images and the category. An exception of
  the name tests is caught by the handler of line 968, and the dictionary keeps what
  was written before.
\<close>

definition after_update :: "pydict \<Rightarrow> pydict \<Rightarrow> pydict" where
  "after_update product details =
     (let p1 = AList.update ''img_url'' (dict_get details ''images'' (PList [])) product in
      case category_of_name (dict_get p1 ''name'' (PStr '''')) of
        Inl e \<Rightarrow> p1
      | Inr c \<Rightarrow>
          (let p2 = (case c of
                       None \<Rightarrow> p1
                     | Some category \<Rightarrow> AList.update ''category'' (PStr category) p1)
           in if map_of p2 ''category'' = Some (PStr ''Fabrics'')
                 \<or> map_of p2 ''category'' = Some (PStr ''fabrics'')
              then AList.update ''category'' (PStr ''Unstitched'') p2
              else p2))"

text \<open>
  One pass of the second loop (lines 856-973): the dictionary appended to the result.
  \<open>detail_fields product details\<close> stands for the evaluation of lines 866-943: the
  price computations and the values of the entries of the dictionary literal other
  than the flag. Its content does not matter to the properties below; when it raises,
  the handler of line 968 leaves the product as it was. The literal ends with
  \<open>'has_detailed_info': True\<close>. A SKU that is not hashable makes \<open>sku in details_map\<close>
  raise \<open>TypeError\<close>, which the same handler catches.
\<close>

definition enhance_one ::
  "(pydict \<Rightarrow> pydict \<Rightarrow> py_error + pydict) \<Rightarrow> (pyval \<times> pydict) list \<Rightarrow> pydict \<Rightarrow> pydict" where
  "enhance_one detail_fields details_map product =
     (let sku = dict_get product ''sku'' (PStr '''') in
      if hashable sku then
        (case map_of details_map sku of
           None \<Rightarrow> product
         | Some details \<Rightarrow>
             if details = [] then product
             else
               (case detail_fields product details of
                  Inl e \<Rightarrow> product
                | Inr entries \<Rightarrow>
                    after_update
                      (AList.update ''has_detailed_info'' (PBool True)
                         (fold (\<lambda>(k, v). AList.update k v) entries product))
                      details))
      else product)"

text \<open>
  \<open>enhance_products_with_details\<close>. The call
  \<open>self.get_product_details(product_requests, max_workers)\<close> of line 851 passes its
  second argument by position, where \<open>get_product_details\<close> has the parameter \<open>color\<close>:
  the batch runs with the default \<open>max_workers=5\<close>, whatever the caller asked for.
\<close>

definition enhance_products_with_details ::
  "(pydict \<Rightarrow> pydict \<Rightarrow> py_error + pydict) \<Rightarrow> (nat \<Rightarrow> pydict) \<Rightarrow> nat list \<Rightarrow>
   pydict list \<Rightarrow> int \<Rightarrow> py_error + pydict list" where
  "enhance_products_with_details detail_fields fetch completion products workers =
     (case get_product_details_batch fetch completion (product_requests products) 5 of
        Inl e \<Rightarrow> Inl e
      | Inr details_map \<Rightarrow> Inr (map (enhance_one detail_fields details_map) products))"

text \<open>
  A listing as the Khaadi extractor builds it for a tile whose SKU has no underscore
  (line 411 leaves \<open>colors\<close> empty then), and one with a colour.
\<close>

definition listing_without_colour :: pydict where
  "listing_without_colour =
     [(''brand'', PStr ''Khaadi''), (''brand_id'', PStr ''2''), (''sku'', PStr ''ACA231001''),
      (''name'', PStr ''Tote Bag''), (''slug'', PStr ''tote-bag-''),
      (''product_type'', PStr ''Bag''), (''category'', PStr ''Accessories''),
      (''colors'', PList []),
      (''url'', PStr ''https://pk.khaadi.com/accessories/ACA231001.html'')]"

definition listing_with_colour :: pydict where
  "listing_with_colour =
     [(''brand'', PStr ''Khaadi''), (''brand_id'', PStr ''2''), (''sku'', PStr ''ALA231001_BLUE''),
      (''name'', PStr ''Fabrics 3 Piece''), (''slug'', PStr ''fabrics-3-piece-''),
      (''product_type'', PStr ''3 Piece''), (''category'', PStr ''Unstitched''),
      (''colors'', PList [PStr ''Blue'']),
      (''url'', PStr ''https://pk.khaadi.com/fabrics/ALA231001_BLUE.html'')]"

section \<open>Properties of the request layer\<close>

lemma USER_AGENTS_length: "length USER_AGENTS = 10"
  by (simp add: USER_AGENTS_def)

lemma USER_AGENTS_nonempty: "USER_AGENTS \<noteq> []"
  using USER_AGENTS_length by auto

lemma rotate_identity_Inr:
  assumes "REFERRERS w \<noteq> []"
  shows "rotate_identity rand rm w =
     Inr (rm\<lparr>session_headers := AList.merge (session_headers rm)
            [(''user-agent'', USER_AGENTS ! (rand (tick w) mod 10)),
             (''referer'', REFERRERS w ! (rand (Suc (tick w)) mod length (REFERRERS w)))]\<rparr>,
          w\<lparr>tick := Suc (Suc (tick w))\<rparr>)"
  using assms USER_AGENTS_nonempty
  by (simp add: rotate_identity_def random_choice_def USER_AGENTS_length)


lemma referer_after_merge:
  "map_of (AList.merge hs [(''user-agent'', ua), (''referer'', ref)]) ''referer'' = Some ref"
  by (simp add: update_conv')

lemma referer_after_update:
  "map_of (AList.update ''user-agent'' ua (AList.update ''referer'' ref hs)) ''referer'' = Some ref"
  by (simp add: update_conv')




text \<open>
  Claim C1 fails on the code. A 429 whose \<open>Retry-After\<close> header is an HTTP date (the other
  form RFC 9110 allows) makes \<open>int(...)\<close> raise \<open>ValueError\<close> inside the \<open>except\<close> block,
  where no handler catches it: \<open>make_request\<close> raises instead of returning a pair.
\<close>

theorem make_request_raises_on_retry_after_date:
  "snd (make_request (rand_const 1) net_retry_after_date example_manager [] world_at_import)
     = Inl ValueError"
  by code_simp


text \<open>
  Claim C3 fails on the code. \<open>merged_headers\<close> is a copy of the session's headers taken
  before the loop, and it is passed with every GET, where it overrides the session's
  headers. In this run (a connection error, a 503, then a 200) the manager's identity
  is rotated before attempts 1 and 2, to the second user agent, yet all three requests
  carry the first user agent, the one installed before the call.
\<close>

theorem retries_send_the_identity_installed_before_the_call:
  "map (\<lambda>h. map_of h ''user-agent'')
       (sent (world_after (rand_const 1) net_two_failures example_manager [] world_at_import))
     = [Some (USER_AGENTS ! 0), Some (USER_AGENTS ! 0), Some (USER_AGENTS ! 0)]
   \<and> map_of (session_headers
         (manager_after (rand_const 1) net_two_failures example_manager [] world_at_import))
       ''user-agent''
     = Some (USER_AGENTS ! 1)
   \<and> USER_AGENTS ! 1 \<noteq> USER_AGENTS ! 0"
  by code_simp

lemma example_manager_built:
  "RequestManager_init (rand_const 0) ''https://pk.sapphireonline.pk'' 3 5 world_at_import
     = Inr (example_manager, world_at_import\<lparr>tick := 2\<rparr>)"
  by code_simp

section \<open>Properties of the shared referrer list\<close>

lemma RequestManager_init_Inr:
  assumes "REFERRERS w \<noteq> []"
  shows "\<exists>rm. RequestManager_init rand b rc rd w = Inr (rm, w\<lparr>tick := Suc (Suc (tick w))\<rparr>)
            \<and> map_of (session_headers rm) ''referer''
                = Some (REFERRERS w ! (rand (Suc (tick w)) mod length (REFERRERS w)))"
  using assms by (simp add: RequestManager_init_def rotate_identity_Inr referer_after_merge referer_after_update)

lemma KhaadiScraper_init_Inr:
  assumes "REFERRERS w \<noteq> []"
  shows "\<exists>k. KhaadiScraper_init rand cfg w =
           Inr (k, w\<lparr>REFERRERS := REFERRERS w @ khaadi_specific_referrers, tick := tick w + 4\<rparr>)"
proof -
  from RequestManager_init_Inr[OF assms] obtain rm where
    rm: "RequestManager_init rand (base_url cfg) (retry_count cfg) (retry_delay cfg) w
           = Inr (rm, w\<lparr>tick := Suc (Suc (tick w))\<rparr>)"
    by blast
  have ne: "REFERRERS (update_request_manager_referrers khaadi_specific_referrers
              (w\<lparr>tick := Suc (Suc (tick w))\<rparr>)) \<noteq> []"
    using assms by (simp add: update_request_manager_referrers_def)
  show ?thesis
    by (simp add: KhaadiScraper_init_def rm Let_def rotate_identity_Inr[OF ne])
       (simp add: update_request_manager_referrers_def)
qed

lemma may_select:
  assumes "ref \<in> set (REFERRERS w)"
  shows "\<exists>rand rm1 w1. rotate_identity rand rm w = Inr (rm1, w1)
           \<and> map_of (session_headers rm1) ''referer'' = Some ref"
proof -
  from assms obtain i where i: "i < length (REFERRERS w)" "REFERRERS w ! i = ref"
    by (auto simp: in_set_conv_nth)
  then have ne: "REFERRERS w \<noteq> []" by auto
  have "rotate_identity (\<lambda>_. i) rm w =
     Inr (rm\<lparr>session_headers := AList.merge (session_headers rm)
            [(''user-agent'', USER_AGENTS ! (i mod 10)), (''referer'', ref)]\<rparr>,
          w\<lparr>tick := Suc (Suc (tick w))\<rparr>)"
    using rotate_identity_Inr[OF ne, of "\<lambda>_. i" rm] i by simp
  moreover have "map_of (session_headers (rm\<lparr>session_headers := AList.merge (session_headers rm)
            [(''user-agent'', USER_AGENTS ! (i mod 10)), (''referer'', ref)]\<rparr>)) ''referer'' = Some ref"
    by (simp add: referer_after_update)
  ultimately show ?thesis by blast
qed

text \<open>
  Claim C10. In a state whose \<open>REFERRERS\<close> list is not empty (it holds ten entries at
  import and is only ever extended), constructing a \<open>KhaadiScraper\<close> succeeds and leaves
  the shared list extended by the nine Khaadi referrers; a second construction appends
  the same nine entries again; and from then on every Khaadi referrer can be what
  \<open>rotate_identity\<close> installs, for any manager \<open>rm\<close>, and in particular for the manager that
  a \<open>SapphireScraper\<close> constructed afterwards owns.
\<close>

theorem khaadi_referrers_are_shared:
  assumes "REFERRERS w \<noteq> []"
  shows "\<exists>k w1. KhaadiScraper_init rand cfg w = Inr (k, w1)
           \<and> REFERRERS w1 = REFERRERS w @ khaadi_specific_referrers
           \<and> length khaadi_specific_referrers = 9
           \<and> (\<exists>k2 w2. KhaadiScraper_init rand2 cfg2 w1 = Inr (k2, w2)
                 \<and> REFERRERS w2 = REFERRERS w @ khaadi_specific_referrers @ khaadi_specific_referrers)
           \<and> (\<forall>ref \<in> set khaadi_specific_referrers.
                 (\<exists>rand3 rm1 w3. rotate_identity rand3 rm w1 = Inr (rm1, w3)
                     \<and> map_of (session_headers rm1) ''referer'' = Some ref)
               \<and> (\<exists>rand3 s w3. SapphireScraper_init rand3 scfg w1 = Inr (s, w3)
                     \<and> map_of (session_headers (request_manager s)) ''referer'' = Some ref))"
proof -
  define w1 where "w1 = w\<lparr>REFERRERS := REFERRERS w @ khaadi_specific_referrers, tick := tick w + 4\<rparr>"
  from KhaadiScraper_init_Inr[OF assms] obtain k where
    k: "KhaadiScraper_init rand cfg w = Inr (k, w1)" unfolding w1_def by blast
  have r1: "REFERRERS w1 = REFERRERS w @ khaadi_specific_referrers" by (simp add: w1_def)
  then have ne1: "REFERRERS w1 \<noteq> []" using assms by simp
  from KhaadiScraper_init_Inr[OF ne1] obtain k2 where
    k2: "KhaadiScraper_init rand2 cfg2 w1 =
           Inr (k2, w1\<lparr>REFERRERS := REFERRERS w1 @ khaadi_specific_referrers, tick := tick w1 + 4\<rparr>)"
    by blast
  have nine: "length khaadi_specific_referrers = 9"
    by (simp add: khaadi_specific_referrers_def)
  have sel: "\<forall>ref \<in> set khaadi_specific_referrers.
                 (\<exists>rand3 rm1 w3. rotate_identity rand3 rm w1 = Inr (rm1, w3)
                     \<and> map_of (session_headers rm1) ''referer'' = Some ref)
               \<and> (\<exists>rand3 s w3. SapphireScraper_init rand3 scfg w1 = Inr (s, w3)
                     \<and> map_of (session_headers (request_manager s)) ''referer'' = Some ref)"
  proof
    fix ref assume "ref \<in> set khaadi_specific_referrers"
    then have mem: "ref \<in> set (REFERRERS w1)" using r1 by simp
    then obtain i where i: "i < length (REFERRERS w1)" "REFERRERS w1 ! i = ref"
      by (auto simp: in_set_conv_nth)
    from RequestManager_init_Inr[OF ne1, of "\<lambda>_. i" "base_url scfg" "retry_count scfg" "retry_delay scfg"]
    obtain rm2 where rm2:
      "RequestManager_init (\<lambda>_. i) (base_url scfg) (retry_count scfg) (retry_delay scfg) w1
         = Inr (rm2, w1\<lparr>tick := Suc (Suc (tick w1))\<rparr>)"
      "map_of (session_headers rm2) ''referer'' = Some ref"
      using i by auto
    have "\<exists>rand3 s w3. SapphireScraper_init rand3 scfg w1 = Inr (s, w3)
                     \<and> map_of (session_headers (request_manager s)) ''referer'' = Some ref"
      by (rule exI[of _ "\<lambda>_. i"]) (simp add: SapphireScraper_init_def rm2)
    with may_select[OF mem, of rm]
    show "(\<exists>rand3 rm1 w3. rotate_identity rand3 rm w1 = Inr (rm1, w3)
                     \<and> map_of (session_headers rm1) ''referer'' = Some ref)
               \<and> (\<exists>rand3 s w3. SapphireScraper_init rand3 scfg w1 = Inr (s, w3)
                     \<and> map_of (session_headers (request_manager s)) ''referer'' = Some ref)"
      by blast
  qed
  have second: "\<exists>k2 w2. KhaadiScraper_init rand2 cfg2 w1 = Inr (k2, w2)
                 \<and> REFERRERS w2 = REFERRERS w @ khaadi_specific_referrers @ khaadi_specific_referrers"
    using k2 r1 by simp
  from k r1 nine second sel show ?thesis by blast
qed

text \<open>The state at import satisfies the hypothesis of C10.\<close>

theorem khaadi_referrers_are_shared_witness:
  "REFERRERS world_at_import \<noteq> []
   \<and> (\<exists>k w1. KhaadiScraper_init (rand_const 0) example_config world_at_import = Inr (k, w1)
        \<and> REFERRERS w1 = REFERRERS_at_import @ khaadi_specific_referrers
        \<and> (\<exists>rand3 s w3. SapphireScraper_init rand3 example_config w1 = Inr (s, w3)
              \<and> map_of (session_headers (request_manager s)) ''referer'' = Some ''https://pk.khaadi.com/sale/''))"
proof -
  have h: "REFERRERS world_at_import \<noteq> []"
    by (simp add: world_at_import_def REFERRERS_at_import_def)
  have m: "''https://pk.khaadi.com/sale/'' \<in> set khaadi_specific_referrers"
    by (simp add: khaadi_specific_referrers_def)
  have r: "REFERRERS world_at_import = REFERRERS_at_import"
    by (simp add: world_at_import_def)
  from khaadi_referrers_are_shared[OF h, of "rand_const 0" example_config "rand_const 0" example_config
         example_manager example_config] m r h
  show ?thesis by fastforce
qed


section \<open>Properties of pagination and orchestration\<close>

lemma length_py_prefix_pos: "0 < n \<Longrightarrow> int (length (py_prefix n xs)) \<le> n"
  by (simp add: py_prefix_def)

lemma handle_page_bound:
  assumes "0 < q" and "int (length (category_products st)) < q"
  shows "(case handle_page psz q st res of
            Return r \<Rightarrow> int (length r) \<le> q
          | Continue st2 \<Rightarrow> int (length (category_products st2)) \<le> q
               \<and> length (category_products st) < length (category_products st2))"
  using assms
  by (auto simp: handle_page_def py_prefix_def split: page_result.splits)

lemma loop_bound:
  assumes "0 < q" and "scrape_category_loop fuel psz s q st = (reqs, Some r)"
  shows "int (length r) \<le> q"
  using assms
proof (induction fuel arbitrary: st)
  case 0
  then show ?case by simp
next
  case (Suc fuel)
  show ?case
  proof (cases "limit_reached q (category_products st)")
    case True
    with Suc.prems show ?thesis by (auto simp: length_py_prefix_pos)
  next
    case False
    define st1 where "st1 = st\<lparr>requested := requested st @ [(start st, page st)]\<rparr>"
    have lt: "int (length (category_products st1)) < q"
      using False Suc.prems(1) by (simp add: limit_reached_def st1_def)
    note hb = handle_page_bound[OF Suc.prems(1) lt, of psz "s (page st)"]
    show ?thesis
    proof (cases "handle_page psz q st1 (s (page st))")
      case (Return r')
      with Suc.prems False hb show ?thesis by (simp add: st1_def Let_def)
    next
      case (Continue st2)
      with Suc.prems False have "scrape_category_loop fuel psz s q st2 = (reqs, Some r)"
        by (simp add: st1_def Let_def)
      from Suc.IH[OF Suc.prems(1) this] show ?thesis .
    qed
  qed
qed

lemma loop_terminates:
  assumes "0 < q" and "nat (q - int (length (category_products st))) < fuel"
  shows "snd (scrape_category_loop fuel psz s q st) \<noteq> None"
  using assms
proof (induction fuel arbitrary: st)
  case 0
  then show ?case by simp
next
  case (Suc fuel)
  show ?case
  proof (cases "limit_reached q (category_products st)")
    case True
    then show ?thesis by simp
  next
    case False
    define st1 where "st1 = st\<lparr>requested := requested st @ [(start st, page st)]\<rparr>"
    have lt: "int (length (category_products st1)) < q"
      using False Suc.prems(1) by (simp add: limit_reached_def st1_def)
    note hb = handle_page_bound[OF Suc.prems(1) lt, of psz "s (page st)"]
    show ?thesis
    proof (cases "handle_page psz q st1 (s (page st))")
      case (Return r')
      with False show ?thesis by (simp add: st1_def Let_def)
    next
      case (Continue st2)
      with hb have "length (category_products st) < length (category_products st2)"
        by (simp add: st1_def)
      with Suc.prems(2) lt have "nat (q - int (length (category_products st2))) < fuel"
        by (simp add: st1_def)
      from Suc.IH[OF Suc.prems(1) this] Continue False show ?thesis
        by (simp add: st1_def Let_def)
    qed
  qed
qed

lemma scrape_category_bound:
  "0 < q \<Longrightarrow> scrape_category fuel psz s q = (reqs, Some r) \<Longrightarrow> int (length r) \<le> q"
  unfolding scrape_category_def by (rule loop_bound)

lemma scrape_category_terminates:
  "0 < q \<Longrightarrow> nat q < fuel \<Longrightarrow> \<exists>r. snd (scrape_category fuel psz s q) = Some r"
  unfolding scrape_category_def using loop_terminates[of q _ fuel psz s] by fastforce

lemma sequential_bound:
  assumes "0 < product_limit cfg" and "int (length all_products) \<le> product_limit cfg"
      and "scrape_sequential_loop fuel cfg site cats all_products = Returns r"
  shows "int (length r) \<le> product_limit cfg"
  using assms
proof (induction cats arbitrary: all_products)
  case Nil
  then show ?case by simp
next
  case (Cons c cats)
  obtain category_name category_id where c: "c = (category_name, category_id)" by (cases c)
  show ?case
  proof (cases "snd (scrape_category fuel (page_size cfg) (site category_id) (product_limit cfg))")
    case None
    with Cons.prems c show ?thesis by simp
  next
    case (Some cps)
    show ?thesis
    proof (cases "product_limit cfg \<le> int (length (all_products @ cps))")
      case True
      with Cons.prems c Some show ?thesis
        by (auto simp: Let_def length_py_prefix_pos)
    next
      case False
      with Cons.prems c Some
      have "scrape_sequential_loop fuel cfg site cats (all_products @ cps) = Returns r"
        by (simp add: Let_def)
      moreover have "int (length (all_products @ cps)) \<le> product_limit cfg" using False by simp
      ultimately show ?thesis using Cons.IH Cons.prems(1) by blast
    qed
  qed
qed

lemma sequential_terminates:
  assumes "0 < product_limit cfg" and "nat (product_limit cfg) < fuel"
  shows "\<exists>r. scrape_sequential_loop fuel cfg site cats all_products = Returns r"
proof (induction cats arbitrary: all_products)
  case Nil
  then show ?case by simp
next
  case (Cons c cats)
  obtain category_name category_id where c: "c = (category_name, category_id)" by (cases c)
  from scrape_category_terminates[OF assms] obtain cps where
    "snd (scrape_category fuel (page_size cfg) (site category_id) (product_limit cfg)) = Some cps"
    by blast
  then show ?case using c Cons.IH by (simp add: Let_def)
qed

lemma those_map_Some:
  assumes "\<forall>x \<in> set xs. f x \<noteq> None"
  shows "those (map f xs) = Some (map (\<lambda>x. the (f x)) xs)"
  using assms by (induction xs) auto

lemma those_Some_nth:
  assumes "those xs = Some ys"
  shows "length ys = length xs \<and> (\<forall>i < length xs. xs ! i = Some (ys ! i))"
  using assms
proof (induction xs arbitrary: ys)
  case Nil
  then show ?case by simp
next
  case (Cons x xs)
  then obtain y ys' where y: "x = Some y" "those xs = Some ys'" "ys = y # ys'"
    by (auto split: option.splits)
  with Cons.IH[of ys'] show ?case by (auto simp: nth_Cons split: nat.splits)
qed

text \<open>
  Claim C5. Whenever \<open>product_limit > 0\<close>: every list \<open>scrape\<close> returns has at most
  \<open>product_limit\<close> records; every category task run with a quota \<open>q > 0\<close> returns at most
  \<open>q\<close> records (a page is cut to the remaining quota, and the loop stops once the quota
  is reached); and \<open>scrape\<close> does return when every category has a quota of at least one
  record (the limit is at least the number of categories), the pool can be created, and
  the fuel exceeds the limit.
\<close>

theorem scrape_respects_product_limit:
  assumes "0 < product_limit cfg"
  shows "(\<forall>r. scrape fuel completion cfg site = Returns r \<longrightarrow> int (length r) \<le> product_limit cfg)
       \<and> (\<forall>q psz s reqs r. 0 < q \<longrightarrow> scrape_category fuel psz s q = (reqs, Some r) \<longrightarrow> int (length r) \<le> q)
       \<and> (int (length (categories cfg)) \<le> product_limit cfg \<longrightarrow>
            (1 < length (categories cfg) \<longrightarrow> 0 < max_workers cfg) \<longrightarrow>
            nat (product_limit cfg) < fuel \<longrightarrow>
            (\<exists>r. scrape fuel completion cfg site = Returns r))"
proof (intro conjI allI impI)
  fix r assume ret: "scrape fuel completion cfg site = Returns r"
  show "int (length r) \<le> product_limit cfg"
  proof (cases "int (length (categories cfg)) \<le> 1")
    case True
    with ret have "scrape_sequential_loop fuel cfg site (categories cfg) [] = Returns r"
      by (simp add: scrape_def Let_def)
    from sequential_bound[OF assms _ this] assms show ?thesis by simp
  next
    case False
    with ret assms show ?thesis
      by (auto simp: scrape_def Let_def length_py_prefix_pos split: if_splits option.splits)
  qed
next
  fix q :: int and psz s reqs and r :: "'b list"
  assume "0 < q" "scrape_category fuel psz s q = (reqs, Some r)"
  then show "int (length r) \<le> q" by (rule scrape_category_bound)
next
  assume n: "int (length (categories cfg)) \<le> product_limit cfg"
    and mw: "1 < length (categories cfg) \<longrightarrow> 0 < max_workers cfg"
    and fuel: "nat (product_limit cfg) < fuel"
  show "\<exists>r. scrape fuel completion cfg site = Returns r"
  proof (cases "int (length (categories cfg)) \<le> 1")
    case True
    with sequential_terminates[OF assms fuel, of site "categories cfg" "[]"] show ?thesis
      by (simp add: scrape_def Let_def)
  next
    case False
    define n where "n = int (length (categories cfg))"
    define share where "share = product_limit cfg div n"
    have n2: "1 < n" using False by (simp add: n_def)
    have "n \<le> product_limit cfg" using n by (simp add: n_def)
    then have sp: "0 < share" using n2 unfolding share_def
      by (simp add: pos_imp_zdiv_pos_iff)
    have "share \<le> product_limit cfg" unfolding share_def using assms
      by (rule int_div_le_self)
    then have sf: "nat share < fuel" using fuel by simp
    have all: "\<forall>c \<in> set (categories cfg).
        (case c of (category_name, category_id) \<Rightarrow>
            snd (scrape_category fuel (page_size cfg) (site category_id) share)) \<noteq> None"
      using scrape_category_terminates[OF sp sf] by (auto split: prod.splits)
    have "0 < max_workers cfg" using mw False by simp
    then have mn: "\<not> min (max_workers cfg) n \<le> 0" using n2 by simp
    from those_map_Some[OF all] n2 mn assms show ?thesis
      by (simp add: scrape_def Let_def n_def[symmetric] share_def[symmetric])
  qed
qed

text \<open>The three-category configuration with limit 10 returns within six passes per category.\<close>

theorem scrape_respects_product_limit_witness:
  "0 < product_limit example_config
   \<and> int (length (categories example_config)) \<le> product_limit example_config
   \<and> 0 < max_workers example_config
   \<and> nat (product_limit example_config) < 11
   \<and> (\<exists>r. scrape 11 [2, 0, 1] example_config site_five_each = Returns r
          \<and> int (length r) \<le> product_limit example_config)"
proof -
  have h: "0 < product_limit example_config" by (simp add: example_config_def)
  have n: "int (length (categories example_config)) \<le> product_limit example_config"
    by (simp add: example_config_def)
  have mw: "0 < max_workers example_config" by (simp add: example_config_def)
  have f: "nat (product_limit example_config) < 11" by (simp add: example_config_def)
  note T = scrape_respects_product_limit[OF h, of 11 "[2, 0, 1]" site_five_each]
  from T n mw f obtain r where r: "scrape 11 [2, 0, 1] example_config site_five_each = Returns r"
    by blast
  with T have "int (length r) \<le> product_limit example_config" by blast
  with h n mw f r show ?thesis by blast
qed

text \<open>
  The end-to-end scenario of the specification: pages of 12, 12 and 5 records with page
  size 12 give exactly three requests and 29 records.
\<close>

lemma end_to_end_12_12_5:
  "scrape_category 5 12 site_12_12_5 0
     = ([(0, 1), (12, 2), (24, 3)], Some ([1 ..< 13] @ [1 ..< 13] @ [1 ..< 6]))
   \<and> length ([1 ..< 13] @ [1 ..< 13] @ [1 ..< 6] :: nat list) = 29"
  by code_simp


lemma site_page1: "site_12_12_5 (Suc 0) = Page False [1 ..< 13]"
  by (simp add: site_12_12_5_def)

lemma site_page3: "site_12_12_5 3 = Page False [1 ..< 6]"
  by (simp add: site_12_12_5_def)


lemma first_page_share:
  assumes "s 1 = Page False ps" and "3 \<le> length ps" and "2 \<le> fuel"
  shows "\<exists>r. snd (scrape_category fuel psz s 3) = Some r \<and> length r = 3"
proof -
  define f where "f = fuel - 2"
  have f: "fuel = Suc (Suc f)" using assms(3) by (simp add: f_def)
  from assms(2) have ne: "ps \<noteq> []" by auto
  let ?st1 = "\<lparr>start = 0, page = Suc 0, category_products = ([] :: 'a list),
               requested = [(0, Suc 0)]\<rparr>"
  have s1: "s (Suc 0) = Page False ps" using assms(1) by simp
  have nr: "\<not> limit_reached 3 ([] :: 'a list)" by (simp add: limit_reached_def)
  have t3: "length (take 3 ps) = 3" using assms(2) by simp
  consider (more) "3 < length ps" | (exact_small) "length ps = 3" "3 < psz"
    | (exact_full) "length ps = 3" "\<not> 3 < psz"
    using assms(2) by linarith
  then show ?thesis
  proof cases
    case more
    then have hp: "handle_page psz 3 ?st1 (Page False ps) = Return (take 3 ps)"
      using ne by (simp add: handle_page_def py_prefix_def)
    show ?thesis unfolding scrape_category_def f
      using t3 by (simp add: nr s1 hp Let_def)
  next
    case exact_small
    then have hp: "handle_page psz 3 ?st1 (Page False ps) = Return ps"
      using ne by (simp add: handle_page_def)
    show ?thesis unfolding scrape_category_def f
      using exact_small by (simp add: nr s1 hp Let_def)
  next
    case exact_full
    let ?st2 = "\<lparr>start = psz, page = Suc (Suc 0), category_products = ps,
                 requested = [(0, Suc 0)]\<rparr>"
    from exact_full have hp: "handle_page psz 3 ?st1 (Page False ps) = Continue ?st2"
      using ne by (simp add: handle_page_def)
    have lr: "limit_reached 3 ps"
      using exact_full by (simp add: limit_reached_def)
    show ?thesis unfolding scrape_category_def f
      using t3 by (simp add: nr s1 hp lr py_prefix_def Let_def)
  qed
qed

lemma length_concat_le:
  assumes "\<forall>i \<in> set xs. length (f i) \<le> k"
  shows "length (concat (map f xs)) \<le> k * length xs"
  using assms by (induction xs) auto

lemma length_concat_eq:
  assumes "\<forall>i \<in> set xs. length (f i) = k"
  shows "length (concat (map f xs)) = k * length xs"
  using assms by (induction xs) auto

text \<open>
  Claim C6, as amended. With three categories and a global limit of 10, each category
  task gets the quota \<open>10 div 3 = 3\<close>. Whatever the site serves and in whatever order
  the tasks complete, \<open>scrape\<close> returns at most 9 records; and it returns exactly 9 when
  the pool can be created and the first page of every category yields at least 3
  records. The truncation to 10 after the merge never applies.
\<close>

theorem three_categories_limit_ten_returns_nine:
  assumes "length (categories cfg) = 3" and "product_limit cfg = 10"
      and "distinct completion" and "set completion = {0, 1, 2}"
  shows "product_limit cfg div int (length (categories cfg)) = 3
       \<and> (\<forall>r. scrape fuel completion cfg site = Returns r \<longrightarrow> length r \<le> 9)
       \<and> (0 < max_workers cfg \<longrightarrow> 2 \<le> fuel \<longrightarrow>
            (\<forall>c \<in> set (categories cfg). \<exists>ps. site (snd c) 1 = Page False ps \<and> 3 \<le> length ps) \<longrightarrow>
            (\<exists>r. scrape fuel completion cfg site = Returns r \<and> length r = 9))"
proof (intro conjI allI impI)
  show "product_limit cfg div int (length (categories cfg)) = 3"
    using assms(1,2) by simp
next
  have len3: "length completion = 3"
    using distinct_card[OF assms(3)] assms(4) by simp
  define futures where "futures = map (\<lambda>(category_name, category_id).
      snd (scrape_category fuel (page_size cfg) (site category_id) 3)) (categories cfg)"
  have unfold: "scrape fuel completion cfg site =
      (if min (max_workers cfg) 3 \<le> 0 then Raises ValueError
       else case those futures of
              None \<Rightarrow> OutOfFuel
            | Some results \<Rightarrow>
                Returns (concat (map (\<lambda>i. results ! i) completion)))"
    if "\<And>results. those futures = Some results \<Longrightarrow>
          length (concat (map (\<lambda>i. results ! i) completion)) \<le> 9"
    using assms(1,2) that
    by (auto simp: scrape_def Let_def futures_def split: option.splits)
  have bound: "length (concat (map (\<lambda>i. results ! i) completion)) \<le> 9"
    if th: "those futures = Some results" for results
  proof -
    from those_Some_nth[OF th] have n: "length results = 3"
      and nth: "\<forall>i < 3. futures ! i = Some (results ! i)"
      using assms(1) by (simp_all add: futures_def)
    have "\<forall>i \<in> set completion. length (results ! i) \<le> 3"
    proof
      fix i assume "i \<in> set completion"
      then have i: "i < 3" using assms(4) by auto
      obtain category_name category_id where c: "categories cfg ! i = (category_name, category_id)"
        by (cases "categories cfg ! i")
      have "futures ! i = snd (scrape_category fuel (page_size cfg) (site category_id) 3)"
        using i assms(1) c by (simp add: futures_def)
      with nth i have "snd (scrape_category fuel (page_size cfg) (site category_id) 3)
                         = Some (results ! i)" by simp
      then have "scrape_category fuel (page_size cfg) (site category_id) 3
                   = (fst (scrape_category fuel (page_size cfg) (site category_id) 3), Some (results ! i))"
        by (simp add: prod_eq_iff)
      from scrape_category_bound[OF _ this] show "length (results ! i) \<le> 3" by simp
    qed
    from length_concat_le[OF this] len3 show ?thesis by simp
  qed
  note eq = unfold[OF bound]
  {
    fix r assume "scrape fuel completion cfg site = Returns r"
    with eq bound show "length r \<le> 9" by (auto split: if_splits option.splits)
  }
  {
    assume mw: "0 < max_workers cfg" and fuel: "2 \<le> fuel"
      and avail: "\<forall>c \<in> set (categories cfg). \<exists>ps. site (snd c) 1 = Page False ps \<and> 3 \<le> length ps"
    have each: "\<forall>c \<in> set (categories cfg).
        \<exists>r. (case c of (category_name, category_id) \<Rightarrow>
               snd (scrape_category fuel (page_size cfg) (site category_id) 3)) = Some r
             \<and> length r = 3"
    proof
      fix c assume c: "c \<in> set (categories cfg)"
      obtain category_name category_id where cc: "c = (category_name, category_id)" by (cases c)
      from avail c cc obtain ps where "site category_id 1 = Page False ps" "3 \<le> length ps"
        by auto
      from first_page_share[of "site category_id" ps fuel "page_size cfg", OF this fuel] cc
      show "\<exists>r. (case c of (category_name, category_id) \<Rightarrow>
               snd (scrape_category fuel (page_size cfg) (site category_id) 3)) = Some r
             \<and> length r = 3" by simp
    qed
    then have "\<forall>c \<in> set (categories cfg).
        (case c of (category_name, category_id) \<Rightarrow>
               snd (scrape_category fuel (page_size cfg) (site category_id) 3)) \<noteq> None"
      by fastforce
    from those_map_Some[OF this] obtain results where th: "those futures = Some results"
      by (simp add: futures_def)
    from those_Some_nth[OF th] have nth: "\<forall>i < 3. futures ! i = Some (results ! i)"
      using assms(1) by (simp add: futures_def)
    have "\<forall>i \<in> set completion. length (results ! i) = 3"
    proof
      fix i assume "i \<in> set completion"
      then have i: "i < 3" using assms(4) by auto
      then have mem: "categories cfg ! i \<in> set (categories cfg)" using assms(1) by simp
      have "futures ! i = (case categories cfg ! i of (category_name, category_id) \<Rightarrow>
               snd (scrape_category fuel (page_size cfg) (site category_id) 3))"
        using i assms(1) by (simp add: futures_def)
      with each mem nth i show "length (results ! i) = 3" by fastforce
    qed
    from length_concat_eq[OF this] len3
    have nine: "length (concat (map (\<lambda>i. results ! i) completion)) = 9" by simp
    from eq th mw nine
    show "\<exists>r. scrape fuel completion cfg site = Returns r \<and> length r = 9" by simp
  }
qed

text \<open>
  Claim C6 fails as stated: three categories with five products each, two workers and a
  limit of 10 give 9 records, not 10.
\<close>

theorem three_categories_limit_ten_is_not_ten:
  "scrape 5 [2, 0, 1] example_config site_five_each = Returns [1, 2, 3, 1, 2, 3, 1, 2, 3]
   \<and> length [1, 2, 3, 1, 2, 3, 1, 2, 3 :: nat] \<noteq> 10"
  by code_simp

text \<open>The same run satisfies the hypotheses of the amended C6.\<close>

theorem three_categories_limit_ten_returns_nine_witness:
  "length (categories example_config) = 3 \<and> product_limit example_config = 10
   \<and> distinct [2, 0, 1 :: nat] \<and> set [2, 0, 1 :: nat] = {0, 1, 2}
   \<and> 0 < max_workers example_config \<and> (2::nat) \<le> 5
   \<and> (\<exists>r. scrape 5 [2, 0, 1] example_config site_five_each = Returns r \<and> length r = 9)"
proof -
  have h1: "length (categories example_config) = 3" by (simp add: example_config_def)
  have h2: "product_limit example_config = 10" by (simp add: example_config_def)
  have h3: "distinct [2, 0, 1 :: nat]" by simp
  have h4: "set [2, 0, 1 :: nat] = {0, 1, 2}" by auto
  have h5: "0 < max_workers example_config" by (simp add: example_config_def)
  have h6: "(2::nat) \<le> 5" by simp
  have h7: "\<forall>c \<in> set (categories example_config).
              \<exists>ps. site_five_each (snd c) 1 = Page False ps \<and> 3 \<le> length ps"
    by (simp add: site_five_each_def)
  from three_categories_limit_ten_returns_nine[OF h1 h2 h3 h4, of 5 site_five_each] h5 h6 h7
  have "\<exists>r. scrape 5 [2, 0, 1] example_config site_five_each = Returns r \<and> length r = 9"
    by blast
  with h1 h2 h3 h4 h5 h6 show ?thesis by blast
qed


section \<open>Properties of the extractors\<close>

lemma py_contains_char: "py_contains [c] s \<longleftrightarrow> c \<in> set s"
proof
  assume "py_contains [c] s"
  then obtain i where i: "take 1 (drop i s) = [c]"
    by (auto simp: py_contains_def)
  then have "drop i s \<noteq> []" by auto
  then have "hd (drop i s) = c" using i by (cases "drop i s") auto
  moreover have "hd (drop i s) \<in> set (drop i s)" using \<open>drop i s \<noteq> []\<close> by simp
  ultimately show "c \<in> set s" using set_drop_subset[of i s] by auto
next
  assume "c \<in> set s"
  then obtain i where i: "i < length s" "s ! i = c" by (auto simp: in_set_conv_nth)
  then have "drop i s = c # drop (Suc i) s" using Cons_nth_drop_Suc[of i s] by simp
  then have "take 1 (drop i s) = [c]" by simp
  with i(1) show "py_contains [c] s"
    by (auto simp: py_contains_def intro!: bexI[of _ i])
qed

lemma py_nth_last: "xs \<noteq> [] \<Longrightarrow> py_nth xs (-1) = last xs"
  by (simp add: py_nth_def last_conv_nth nat_diff_distrib')

lemma py_nth_last2: "2 \<le> length xs \<Longrightarrow> py_nth xs (-2) = last (butlast xs)"
proof -
  assume l: "2 \<le> length xs"
  then have ne: "butlast xs \<noteq> []" by (cases xs rule: rev_cases) auto
  have "nat (int (length xs) + - 2) = length xs - 2" by simp
  moreover have "last (butlast xs) = butlast xs ! (length (butlast xs) - 1)"
    using ne by (rule last_conv_nth)
  moreover have "butlast xs ! (length xs - 2) = xs ! (length xs - 2)"
    using l by (simp add: nth_butlast)
  moreover have "length (butlast xs) - 1 = length xs - 2" by simp
  ultimately show ?thesis by (simp add: py_nth_def)
qed

text \<open>
  Claim C8. For every product name without a dash, both extractors compute the same
  \<open>product_type\<close>: the last two words joined by a space when that is "3 Piece" or
  "2 Piece", and the last word otherwise (the empty string for a name without words).
  The two-word rule is tested first.
\<close>

theorem product_type_without_dash:
  assumes "CHR ''-'' \<notin> set name"
  shows "sapphire_product_type name = khaadi_product_type name
       \<and> khaadi_product_type name =
           (if py_split name = [] then ''''
            else if 2 \<le> length (py_split name)
                    \<and> last (butlast (py_split name)) @ '' '' @ last (py_split name)
                        \<in> {''3 Piece'', ''2 Piece''}
              then last (butlast (py_split name)) @ '' '' @ last (py_split name)
            else last (py_split name))"
proof -
  have nd: "\<not> py_contains ''-'' name" using assms py_contains_char[of "CHR ''-''" name] by simp
  have eq: "sapphire_product_type name = khaadi_product_type name"
    by (simp add: sapphire_product_type_def khaadi_product_type_def nd Let_def)
  have k: "khaadi_product_type name =
           (if py_split name = [] then ''''
            else if 2 \<le> length (py_split name)
                    \<and> last (butlast (py_split name)) @ '' '' @ last (py_split name)
                        \<in> {''3 Piece'', ''2 Piece''}
              then last (butlast (py_split name)) @ '' '' @ last (py_split name)
            else last (py_split name))"
  proof (cases "py_split name = []")
    case True
    then show ?thesis by (simp add: khaadi_product_type_def Let_def)
  next
    case False
    show ?thesis
    proof (cases "2 \<le> length (py_split name)")
      case True
      with False show ?thesis
        by (simp add: khaadi_product_type_def Let_def py_nth_last py_nth_last2 piece_types_def)
    next
      case f2: False
      with False show ?thesis
        by (simp add: khaadi_product_type_def Let_def py_nth_last)
    qed
  qed
  from eq k show ?thesis by simp
qed

text \<open>Two names without a dash: one ends in "3 Piece", the other in a single-word type.\<close>

theorem product_type_without_dash_witness:
  "CHR ''-'' \<notin> set ''Printed Lawn 3 Piece''
   \<and> sapphire_product_type ''Printed Lawn 3 Piece'' = ''3 Piece''
   \<and> khaadi_product_type ''Printed Lawn 3 Piece'' = ''3 Piece''
   \<and> CHR ''-'' \<notin> set ''Embroidered Lawn Shirt''
   \<and> sapphire_product_type ''Embroidered Lawn Shirt'' = ''Shirt''
   \<and> khaadi_product_type ''Embroidered Lawn Shirt'' = ''Shirt''"
proof -
  have h1: "CHR ''-'' \<notin> set ''Printed Lawn 3 Piece''" by simp
  have h2: "CHR ''-'' \<notin> set ''Embroidered Lawn Shirt''" by simp
  have w1: "py_split ''Printed Lawn 3 Piece'' = [''Printed'', ''Lawn'', ''3'', ''Piece'']"
    by code_simp
  have w2: "py_split ''Embroidered Lawn Shirt'' = [''Embroidered'', ''Lawn'', ''Shirt'']"
    by code_simp
  from product_type_without_dash[OF h1]
  have a: "sapphire_product_type ''Printed Lawn 3 Piece'' = ''3 Piece''
         \<and> khaadi_product_type ''Printed Lawn 3 Piece'' = ''3 Piece''"
    unfolding w1 by simp
  from product_type_without_dash[OF h2]
  have b: "sapphire_product_type ''Embroidered Lawn Shirt'' = ''Shirt''
         \<and> khaadi_product_type ''Embroidered Lawn Shirt'' = ''Shirt''"
    unfolding w2 by simp
  from h1 h2 a b show ?thesis by blast
qed





section \<open>Properties of the detail enrichment\<close>

text \<open>
  On the path that returns, the result is the input list mapped through \<open>enhance_one\<close>:
  as many listings, in input order.
\<close>

lemma enhance_returns_the_listings:
  assumes "enhance_products_with_details detail_fields fetch completion products workers
             = Inr enhanced"
  shows "\<exists>details_map. enhanced = map (enhance_one detail_fields details_map) products
           \<and> length enhanced = length products"
  using assms
  by (auto simp: enhance_products_with_details_def split: sum.splits)

lemma flag_after_img_url:
  "map_of (AList.update ''img_url'' v al) ''has_detailed_info'' = map_of al ''has_detailed_info''"
  by (simp add: update_conv')

lemma flag_after_category:
  "map_of (AList.update ''category'' v al) ''has_detailed_info'' = map_of al ''has_detailed_info''"
  by (simp add: update_conv')

lemma map_of_after_update_flag:
  "map_of (after_update product details) ''has_detailed_info'' = map_of product ''has_detailed_info''"
  by (simp add: after_update_def Let_def flag_after_img_url flag_after_category
        split: sum.splits option.splits)

text \<open>
  A listing whose SKU has no entry in the details map, or an empty one, is appended as
  it came; a listing that is enriched carries the flag.
\<close>

lemma enhance_one_cases:
  "(map_of details_map (dict_get product ''sku'' (PStr '''')) = None
      \<or> map_of details_map (dict_get product ''sku'' (PStr '''')) = Some []
    \<longrightarrow> enhance_one detail_fields details_map product = product)
   \<and> (\<forall>details entries.
         hashable (dict_get product ''sku'' (PStr '''')) \<longrightarrow>
         map_of details_map (dict_get product ''sku'' (PStr '''')) = Some details \<longrightarrow>
         details \<noteq> [] \<longrightarrow> detail_fields product details = Inr entries \<longrightarrow>
         map_of (enhance_one detail_fields details_map product) ''has_detailed_info''
           = Some (PBool True))"
  by (auto simp: enhance_one_def Let_def map_of_after_update_flag update_conv')

lemma no_request_without_colour: "product_requests [listing_without_colour] = []"
  by code_simp

lemma enhance_raises_without_requests:
  "product_requests products = [] \<Longrightarrow>
   enhance_products_with_details detail_fields fetch completion products workers = Inl ValueError"
  by (simp add: enhance_products_with_details_def get_product_details_batch_def)

text \<open>
  Claim C9 fails on the code. When no listing of the input has both a SKU and a colour,
  the first loop skips them all, \<open>product_requests\<close> is empty, and
  \<open>_get_product_details_batch\<close> creates its pool with \<open>min(5, 0) = 0\<close> workers:
  \<open>ThreadPoolExecutor\<close> raises \<open>ValueError\<close>, outside every \<open>try\<close> of the two
  functions. For the listing of a tile whose SKU has no underscore (its \<open>colors\<close> list
  is empty) \<open>enhance_products_with_details\<close> raises instead of returning the listing
  unchanged, whatever the detail endpoint answers and whatever \<open>max_workers\<close> is.
\<close>

theorem enhance_raises_when_no_listing_has_sku_and_colour:
  "product_requests [listing_without_colour] = []
   \<and> enhance_products_with_details detail_fields fetch completion [listing_without_colour] workers
       = Inl ValueError"
  by (simp add: enhance_products_with_details_def get_product_details_batch_def
        no_request_without_colour)

end
